theory Spec2Isabelle
  imports Complex_Main
begin

section \<open>Spatial envelopes of raster grids (raster/envelope.py)\<close>

text \<open>
  The module computes with Python floats and counts cells with \<^verbatim>\<open>decimal.Decimal\<close>.
  A float is modelled by the rational number it denotes. Every function of the source
  that does float arithmetic takes the arithmetic as its first argument \<open>ar\<close>:
  \<^item> \<open>round_float ar\<close> is applied to the exact result of each float operation
    (\<^verbatim>\<open>+\<close>, \<^verbatim>\<open>-\<close>, \<^verbatim>\<open>*\<close>, \<^verbatim>\<open>/\<close>, the conversion of an \<^verbatim>\<open>int\<close>, a float literal);
  \<^item> \<open>float_max ar\<close> is the largest finite float: a result beyond it stands for an
    infinity (\<open>None\<close>: there is none);
  \<^item> \<open>str_float ar x\<close> is the decimal number that \<^verbatim>\<open>Decimal(str(x))\<close> holds;
  \<^item> \<open>decimal_prec ar\<close> is the precision of the decimal context (\<open>None\<close>: unlimited).

  Two arithmetics are defined. \<open>python3\<close> is the arithmetic of CPython 3: binary64
  rounded to nearest, ties to even; \<^verbatim>\<open>str\<close> the shortest decimal that reads back as the
  same double; the default decimal context of 28 digits, \<^verbatim>\<open>ROUND_HALF_EVEN\<close>. \<open>exact\<close>
  rounds nowhere. The arguments of the functions are finite doubles. Subnormal numbers
  are not modelled (the exponent has no lower bound). An infinity is followed through
  comparisons, division, \<^verbatim>\<open>math.fmod\<close>, \<^verbatim>\<open>math.floor\<close> and the conversion to
  \<^verbatim>\<open>Decimal\<close>, which is where the source can raise on one; sums and products of
  infinities, and NaN, are not modelled. Comparisons, \<^verbatim>\<open>min\<close>, \<^verbatim>\<open>max\<close> and
  \<^verbatim>\<open>math.fabs\<close> are exact on doubles. Exceptions are values of the type \<open>error\<close>,
  returned as \<open>Inl\<close>.
\<close>

subsection \<open>Errors\<close>

datatype error =
    EnvelopeError string
  | ZeroDivisionError
  | ValueError
  | OverflowError
  | DivisionByZero
  | InvalidOperation
  | IndexError

subsection \<open>Rounding\<close>

text \<open>Number of digits of a positive integer in base \<open>b\<close> (eight digits at a time
  while there are that many).\<close>

function ndigits :: "int \<Rightarrow> int \<Rightarrow> nat" where
  "ndigits b n =
     (if b < 2 \<or> n < b then 1
      else if n < b ^ 8 then Suc (ndigits b (n div b))
      else 8 + ndigits b (n div b ^ 8))"
  by pat_completeness auto
termination
proof (relation "measure (\<lambda>(b, n). nat n)")
  show "wf (measure (\<lambda>(b, n). nat n))" by simp
next
  fix b n :: int
  assume "\<not> (b < 2 \<or> n < b)" "n < b ^ 8"
  then show "((b, n div b), (b, n)) \<in> measure (\<lambda>(b, n). nat n)"
    by (auto intro!: int_div_less_self)
next
  fix b n :: int
  assume a: "\<not> (b < 2 \<or> n < b)" "\<not> n < b ^ 8"
  then have "1 < b ^ 8" by (simp add: one_less_power)
  moreover have "0 < n" using a by simp
  ultimately have "n div b ^ 8 < n" by (rule int_div_less_self [rotated])
  then show "((b, n div b ^ 8), (b, n)) \<in> measure (\<lambda>(b, n). nat n)"
    using a by simp
qed

declare ndigits.simps [simp del]

text \<open>The exponent of the leading digit of \<open>x \<noteq> 0\<close> in base \<open>b\<close>:
  \<open>b^e \<le> |x| < b^(e+1)\<close>.\<close>

definition ilog :: "int \<Rightarrow> rat \<Rightarrow> int" where
  "ilog b x =
     (if 1 \<le> \<bar>x\<bar> then int (ndigits b \<lfloor>\<bar>x\<bar>\<rfloor>) - 1
      else - int (ndigits b (\<lceil>1 / \<bar>x\<bar>\<rceil> - 1)))"

text \<open>Rounding to the nearest integer, ties to the even one.\<close>

definition round_half_even :: "rat \<Rightarrow> int" where
  "round_half_even x =
     (let f = \<lfloor>x\<rfloor>; d = x - of_int f
      in if d < 1 / 2 then f
         else if 1 / 2 < d then f + 1
         else if even f then f else f + 1)"

text \<open>Rounding to \<open>p\<close> significant digits in base \<open>b\<close>, to nearest, ties to even.\<close>

definition round_sig :: "int \<Rightarrow> nat \<Rightarrow> rat \<Rightarrow> rat" where
  "round_sig b p x =
     (if x = 0 then 0
      else let u = of_int b powi (ilog b x - (int p - 1))
           in sgn x * of_int (round_half_even (\<bar>x\<bar> / u)) * u)"

text \<open>A double: 53 significant bits. The largest finite one is
  \<open>(2^53 - 1) * 2^971\<close>.\<close>

definition binary64 :: "rat \<Rightarrow> rat" where
  "binary64 = round_sig 2 53"

definition binary64_max :: rat where
  "binary64_max = (2 ^ 53 - 1) * 2 ^ 971"

text \<open>\<^verbatim>\<open>str\<close> of a double in Python 3 (its \<^verbatim>\<open>repr\<close>): the decimal with the fewest
  significant digits that reads back as the same double, the nearest one when two
  decimals of that length do; 17 digits always do. \<open>repr_at k x\<close> looks among the two
  decimals of \<open>k\<close> digits around \<open>x > 0\<close>.\<close>

definition repr_at :: "nat \<Rightarrow> rat \<Rightarrow> rat option" where
  "repr_at k x =
     (let u = 10 powi (ilog 10 x - (int k - 1));
          lo = of_int \<lfloor>x / u\<rfloor> * u;
          hi = lo + u;
          ok_lo = (binary64 lo = x);
          ok_hi = (binary64 hi = x)
      in if ok_lo \<and> ok_hi then (if x - lo \<le> hi - x then Some lo else Some hi)
         else if ok_lo then Some lo
         else if ok_hi then Some hi
         else None)"

function repr_from :: "nat \<Rightarrow> rat \<Rightarrow> rat" where
  "repr_from k x =
     (if 17 \<le> k then round_sig 10 17 x
      else case repr_at k x of Some d \<Rightarrow> d | None \<Rightarrow> repr_from (Suc k) x)"
  by pat_completeness auto
termination
  by (relation "measure (\<lambda>(k, x). 17 - k)") auto

declare repr_from.simps [simp del]

definition float_repr :: "rat \<Rightarrow> rat" where
  "float_repr x = (if x = 0 then 0 else sgn x * repr_from 1 \<bar>x\<bar>)"

subsection \<open>The arithmetic\<close>

record arith =
  round_float :: "rat \<Rightarrow> rat"
  float_max :: "rat option"
  str_float :: "rat \<Rightarrow> rat"
  decimal_prec :: "nat option"

definition exact :: arith where
  "exact = \<lparr>round_float = (\<lambda>x. x), float_max = None, str_float = (\<lambda>x. x),
            decimal_prec = None\<rparr>"

definition python3 :: arith where
  "python3 = \<lparr>round_float = binary64, float_max = Some binary64_max,
              str_float = float_repr, decimal_prec = Some 28\<rparr>"

text \<open>The value stands for an infinity.\<close>

definition is_inf :: "arith \<Rightarrow> rat \<Rightarrow> bool" where
  "is_inf ar x = (case float_max ar of None \<Rightarrow> False | Some m \<Rightarrow> m < \<bar>x\<bar>)"

subsection \<open>Float operations\<close>

definition fadd :: "arith \<Rightarrow> rat \<Rightarrow> rat \<Rightarrow> rat" where
  "fadd ar x y = round_float ar (x + y)"

definition fsub :: "arith \<Rightarrow> rat \<Rightarrow> rat \<Rightarrow> rat" where
  "fsub ar x y = round_float ar (x - y)"

definition fmul :: "arith \<Rightarrow> rat \<Rightarrow> rat \<Rightarrow> rat" where
  "fmul ar x y = round_float ar (x * y)"

text \<open>Float division \<^verbatim>\<open>x / y\<close>: a zero divisor raises \<^verbatim>\<open>ZeroDivisionError\<close>; an
  infinite \<open>x\<close> over a finite \<open>y\<close> is infinite.\<close>

definition fdiv :: "arith \<Rightarrow> rat \<Rightarrow> rat \<Rightarrow> error + rat" where
  "fdiv ar x y =
     (if y = 0 then Inl ZeroDivisionError
      else if is_inf ar x then Inr (sgn y * x)
      else Inr (round_float ar (x / y)))"

text \<open>An \<^verbatim>\<open>int\<close> operand of a float operation is converted to a float first.\<close>

definition float_of_int :: "arith \<Rightarrow> int \<Rightarrow> rat" where
  "float_of_int ar n = round_float ar (of_int n)"

text \<open>The literal \<^verbatim>\<open>PRECISION = 0.0000001\<close>.\<close>

definition PRECISION :: "arith \<Rightarrow> rat" where
  "PRECISION ar = round_float ar (1 / 10000000)"

text \<open>\<^verbatim>\<open>int(x)\<close> truncates towards zero.\<close>

definition py_int :: "rat \<Rightarrow> int" where
  "py_int x = (if 0 \<le> x then \<lfloor>x\<rfloor> else \<lceil>x\<rceil>)"

text \<open>\<^verbatim>\<open>int(math.floor(x))\<close>: an infinite \<open>x\<close> raises \<^verbatim>\<open>OverflowError\<close>.\<close>

definition float_floor :: "arith \<Rightarrow> rat \<Rightarrow> error + int" where
  "float_floor ar x = (if is_inf ar x then Inl OverflowError else Inr \<lfloor>x\<rfloor>)"

text \<open>\<^verbatim>\<open>math.fmod(x, y)\<close>: the remainder with the sign of \<open>x\<close>, which is a double when
  \<open>x\<close> and \<open>y\<close> are. An infinite \<open>x\<close> or a zero \<open>y\<close> raises \<^verbatim>\<open>ValueError\<close>; for an
  infinite \<open>y\<close> the result is \<open>x\<close>.\<close>

definition fmod :: "arith \<Rightarrow> rat \<Rightarrow> rat \<Rightarrow> error + rat" where
  "fmod ar x y =
     (if is_inf ar x \<or> y = 0 then Inl ValueError
      else if is_inf ar y then Inr x
      else Inr (x - y * of_int (py_int (x / y))))"

subsection \<open>Decimal arithmetic under a context\<close>

text \<open>A value rounded to the context's precision (\<^verbatim>\<open>ROUND_HALF_EVEN\<close>).\<close>

definition round_ctx :: "nat option \<Rightarrow> rat \<Rightarrow> rat" where
  "round_ctx ctx x = (case ctx of None \<Rightarrow> x | Some p \<Rightarrow> round_sig 10 p x)"

text \<open>\<^verbatim>\<open>a / b\<close> on decimals: the quotient rounded to the precision; a zero divisor
  raises \<^verbatim>\<open>DivisionByZero\<close> (\<^verbatim>\<open>InvalidOperation\<close> for \<open>0 / 0\<close>).\<close>

definition decimal_divide :: "nat option \<Rightarrow> rat \<Rightarrow> rat \<Rightarrow> error + rat" where
  "decimal_divide ctx a b =
     (if b = 0 then (if a = 0 then Inl InvalidOperation else Inl DivisionByZero)
      else Inr (round_ctx ctx (a / b)))"

text \<open>\<^verbatim>\<open>a % b\<close> on decimals: the remainder of the truncated division, with the sign
  of \<open>a\<close>. It raises \<^verbatim>\<open>InvalidOperation\<close> for a zero divisor and when the integer
  quotient has more digits than the precision. (Python also rounds the remainder to
  the precision, which leaves a nonzero remainder nonzero; the only use below is the
  test against zero.)\<close>

definition decimal_remainder :: "nat option \<Rightarrow> rat \<Rightarrow> rat \<Rightarrow> error + rat" where
  "decimal_remainder ctx a b =
     (if b = 0 then Inl InvalidOperation
      else let q = py_int (a / b)
           in if (case ctx of None \<Rightarrow> False | Some p \<Rightarrow> 10 ^ p \<le> \<bar>q\<bar>)
              then Inl InvalidOperation
              else Inr (a - b * of_int q))"

subsection \<open>Envelope\<close>

record Envelope =
  x_min :: rat
  y_min :: rat
  x_max :: rat
  y_max :: rat

definition assert_valid_envelope :: "'a Envelope_scheme \<Rightarrow> bool" where
  "assert_valid_envelope self \<longleftrightarrow> x_min self < x_max self \<and> y_min self < y_max self"

definition Envelope_init :: "rat \<Rightarrow> rat \<Rightarrow> rat \<Rightarrow> rat \<Rightarrow> error + Envelope" where
  "Envelope_init x0 y0 x1 y1 =
     (let self = \<lparr>x_min = x0, y_min = y0, x_max = x1, y_max = y1\<rparr>
      in if assert_valid_envelope self then Inr self
         else Inl (EnvelopeError ''Invalid envelope shape''))"

definition is_subset :: "'a Envelope_scheme \<Rightarrow> 'b Envelope_scheme \<Rightarrow> bool" where
  "is_subset self other =
     (if x_min self < x_min other then False
      else if x_max self > x_max other then False
      else if y_min self < y_min other then False
      else if y_max self > y_max other then False
      else True)"

definition is_superset :: "'a Envelope_scheme \<Rightarrow> 'b Envelope_scheme \<Rightarrow> bool" where
  "is_superset self other =
     (if x_min self > x_min other then False
      else if x_max self < x_max other then False
      else if y_min self > y_min other then False
      else if y_max self < y_max other then False
      else True)"

definition is_disjoint :: "'a Envelope_scheme \<Rightarrow> 'b Envelope_scheme \<Rightarrow> bool" where
  "is_disjoint self other =
     (if x_min self > x_max other then True
      else if x_max self < x_min other then True
      else if y_min self > y_max other then True
      else if y_max self < y_min other then True
      else False)"

definition Envelope_union :: "'a Envelope_scheme \<Rightarrow> 'b Envelope_scheme \<Rightarrow> error + Envelope" where
  "Envelope_union self other =
     Envelope_init (min (x_min self) (x_min other)) (min (y_min self) (y_min other))
                   (max (x_max self) (x_max other)) (max (y_max self) (y_max other))"

definition Envelope_intersection ::
  "'a Envelope_scheme \<Rightarrow> 'b Envelope_scheme \<Rightarrow> error + Envelope" where
  "Envelope_intersection self other =
     Envelope_init (max (x_min self) (x_min other)) (max (y_min self) (y_min other))
                   (min (x_max self) (x_max other)) (min (y_max self) (y_max other))"

subsection \<open>Counting cells and snapping the window\<close>

text \<open>An infinite range is the decimal \<^verbatim>\<open>Infinity\<close>, and so is its quotient by the
  cell size, whose conversion to \<^verbatim>\<open>int\<close> raises \<^verbatim>\<open>OverflowError\<close>.\<close>

definition get_num_cells :: "arith \<Rightarrow> rat \<Rightarrow> rat \<Rightarrow> rat \<Rightarrow> error + int" where
  "get_num_cells ar coord_max coord_min cell_size =
     (let float_range = fsub ar coord_max coord_min
      in if is_inf ar float_range then Inl OverflowError
         else
           (let coord_range = str_float ar float_range;
                cell_size = str_float ar cell_size
            in case decimal_divide (decimal_prec ar) coord_range cell_size of
                 Inl e \<Rightarrow> Inl e
               | Inr q \<Rightarrow>
                   (let n_cells = py_int q
                    in case decimal_remainder (decimal_prec ar) coord_range cell_size of
                         Inl e \<Rightarrow> Inl e
                       | Inr m \<Rightarrow> Inr (if m \<noteq> 0 then n_cells + 1 else n_cells))))"

definition calculate_snapped_window ::
  "arith \<Rightarrow> 'a Envelope_scheme \<Rightarrow> rat \<Rightarrow> error + (rat \<times> rat \<times> int \<times> int)" where
  "calculate_snapped_window ar env cell_size =
     (case get_num_cells ar (x_max env) (x_min env) cell_size of
        Inl e \<Rightarrow> Inl e
      | Inr x_size \<Rightarrow>
          (case get_num_cells ar (y_max env) (y_min env) cell_size of
             Inl e \<Rightarrow> Inl e
           | Inr y_size \<Rightarrow>
               Inr (fadd ar (x_min env) (fmul ar (float_of_int ar x_size) cell_size),
                    fsub ar (y_max env) (fmul ar (float_of_int ar y_size) cell_size),
                    x_size, y_size)))"

subsection \<open>RasterEnvelope\<close>

record RasterEnvelope = Envelope +
  cell_size :: rat
  x_size :: int
  y_size :: int

definition RasterEnvelope_init ::
  "arith \<Rightarrow> rat \<Rightarrow> rat \<Rightarrow> rat \<Rightarrow> rat \<Rightarrow> rat \<Rightarrow> error + RasterEnvelope" where
  "RasterEnvelope_init ar x0 y0 x1 y1 cs =
     (case Envelope_init x0 y0 x1 y1 of
        Inl e \<Rightarrow> Inl e
      | Inr env \<Rightarrow>
          (case calculate_snapped_window ar env cs of
             Inl e \<Rightarrow> Inl e
           | Inr (xm, ym, xs, ys) \<Rightarrow>
               Inr \<lparr>x_min = x_min env, y_min = ym, x_max = xm, y_max = y_max env,
                    cell_size = cs, x_size = xs, y_size = ys\<rparr>))"

text \<open>\<^verbatim>\<open>__eq__\<close> of RasterEnvelope, test by test as the source has them.\<close>

definition RasterEnvelope_eq :: "arith \<Rightarrow> RasterEnvelope \<Rightarrow> RasterEnvelope \<Rightarrow> bool" where
  "RasterEnvelope_eq ar self other =
     (if \<bar>fsub ar (x_min self) (x_min other)\<bar> > PRECISION ar then False
      else if \<bar>fsub ar (y_min self) (y_min other)\<bar> > PRECISION ar then False
      else if \<bar>fsub ar (x_min self) (x_min other)\<bar> > PRECISION ar then False
      else if \<bar>fsub ar (x_min self) (x_min other)\<bar> > PRECISION ar then False
      else if \<bar>fsub ar (cell_size self) (cell_size other)\<bar> > PRECISION ar then False
      else if x_size self \<noteq> x_size other then False
      else if y_size self \<noteq> y_size other then False
      else True)"

definition is_snapped :: "arith \<Rightarrow> RasterEnvelope \<Rightarrow> RasterEnvelope \<Rightarrow> error + bool" where
  "is_snapped ar self other =
     (if cell_size self \<noteq> cell_size other then Inr False
      else let x_min_diff = fsub ar (x_min self) (x_min other)
           in case fmod ar x_min_diff (cell_size self) of
                Inl e \<Rightarrow> Inl e
              | Inr mx \<Rightarrow>
                  if mx \<noteq> 0 then Inr False
                  else let y_max_diff = fsub ar (y_max self) (y_max other)
                       in case fmod ar y_max_diff (cell_size self) of
                            Inl e \<Rightarrow> Inl e
                          | Inr my \<Rightarrow> if my \<noteq> 0 then Inr False else Inr True)"

definition is_snapped_subset ::
  "arith \<Rightarrow> RasterEnvelope \<Rightarrow> RasterEnvelope \<Rightarrow> error + bool" where
  "is_snapped_subset ar self other =
     (case is_snapped ar self other of
        Inl e \<Rightarrow> Inl e
      | Inr s \<Rightarrow>
          if \<not> s then Inr False
          else if \<not> is_subset self other then Inr False
          else Inr True)"

definition is_snapped_superset ::
  "arith \<Rightarrow> RasterEnvelope \<Rightarrow> RasterEnvelope \<Rightarrow> error + bool" where
  "is_snapped_superset ar self other =
     (case is_snapped ar self other of
        Inl e \<Rightarrow> Inl e
      | Inr s \<Rightarrow>
          if \<not> s then Inr False
          else if \<not> is_superset self other then Inr False
          else Inr True)"

definition get_offset_from_xy ::
  "arith \<Rightarrow> RasterEnvelope \<Rightarrow> rat \<Rightarrow> rat \<Rightarrow> error + (int \<times> int)" where
  "get_offset_from_xy ar self x y =
     (case fdiv ar (fsub ar x (x_min self)) (cell_size self) of
        Inl e \<Rightarrow> Inl e
      | Inr qx \<Rightarrow>
          (case float_floor ar qx of
             Inl e \<Rightarrow> Inl e
           | Inr x_off \<Rightarrow>
               (case fdiv ar (fsub ar (y_max self) y) (cell_size self) of
                  Inl e \<Rightarrow> Inl e
                | Inr qy \<Rightarrow>
                    (case float_floor ar qy of
                       Inl e \<Rightarrow> Inl e
                     | Inr y_off \<Rightarrow> Inr (x_off, y_off)))))"

definition get_xy_from_offset :: "arith \<Rightarrow> RasterEnvelope \<Rightarrow> int \<Rightarrow> int \<Rightarrow> rat \<times> rat" where
  "get_xy_from_offset ar self x_off y_off =
     (fadd ar (x_min self) (fmul ar (float_of_int ar x_off) (cell_size self)),
      fsub ar (y_max self) (fmul ar (float_of_int ar y_off) (cell_size self)))"

subsection \<open>Minimum bounding envelope\<close>

definition get_minimum_bounding_envelope ::
  "arith \<Rightarrow> 'a Envelope_scheme \<Rightarrow> RasterEnvelope \<Rightarrow> error + RasterEnvelope" where
  "get_minimum_bounding_envelope ar bound_env snap_re =
     (if is_disjoint bound_env snap_re
      then Inl (EnvelopeError ''The two envelopes do not overlap'')
      else case get_offset_from_xy ar snap_re (x_min bound_env) (y_max bound_env) of
             Inl e \<Rightarrow> Inl e
           | Inr (x_off, y_off) \<Rightarrow>
               (let x_min' = fadd ar (x_min snap_re)
                               (fmul ar (float_of_int ar x_off) (cell_size snap_re));
                    y_max' = fsub ar (y_max snap_re)
                               (fmul ar (float_of_int ar y_off) (cell_size snap_re))
                in RasterEnvelope_init ar x_min' (y_min bound_env) (x_max bound_env) y_max'
                     (cell_size snap_re)))"

text \<open>Neither of the two differences that \<open>is_snapped\<close> computes overflows.\<close>

definition finite_offsets :: "arith \<Rightarrow> RasterEnvelope \<Rightarrow> RasterEnvelope \<Rightarrow> bool" where
  "finite_offsets ar self other \<longleftrightarrow>
     \<not> is_inf ar (fsub ar (x_min self) (x_min other)) \<and>
     \<not> is_inf ar (fsub ar (y_max self) (y_max other))"

subsection \<open>Union and intersection of RasterEnvelopes\<close>

definition RasterEnvelope_union ::
  "arith \<Rightarrow> RasterEnvelope \<Rightarrow> RasterEnvelope \<Rightarrow> bool \<Rightarrow> error + RasterEnvelope" where
  "RasterEnvelope_union ar self other snap_this =
     (case is_snapped_subset ar self other of
        Inl e \<Rightarrow> Inl e
      | Inr is_sub \<Rightarrow>
          if is_sub then Inr other
          else (case is_snapped_superset ar self other of
             Inl e \<Rightarrow> Inl e
           | Inr is_sup \<Rightarrow>
               if is_sup then Inr self
               else if is_subset self other then
                 (if snap_this then get_minimum_bounding_envelope ar other self
                  else Inr other)
               else if is_superset self other then
                 (if snap_this then Inr self
                  else get_minimum_bounding_envelope ar self other)
               else (case Envelope_union self other of
                  Inl e \<Rightarrow> Inl e
                | Inr env \<Rightarrow>
                    if snap_this then get_minimum_bounding_envelope ar env self
                    else get_minimum_bounding_envelope ar env other)))"

definition RasterEnvelope_intersection ::
  "arith \<Rightarrow> RasterEnvelope \<Rightarrow> RasterEnvelope \<Rightarrow> bool \<Rightarrow> error + RasterEnvelope" where
  "RasterEnvelope_intersection ar self other snap_this =
     (case is_snapped_subset ar self other of
        Inl e \<Rightarrow> Inl e
      | Inr is_sub \<Rightarrow>
          if is_sub then Inr self
          else (case is_snapped_superset ar self other of
             Inl e \<Rightarrow> Inl e
           | Inr is_sup \<Rightarrow>
               if is_sup then Inr other
               else if is_subset self other then
                 (if snap_this then Inr self
                  else get_minimum_bounding_envelope ar self other)
               else if is_superset self other then
                 (if snap_this then get_minimum_bounding_envelope ar other self
                  else Inr other)
               else (case Envelope_intersection self other of
                  Inl e \<Rightarrow> Inl e
                | Inr env \<Rightarrow>
                    if snap_this then get_minimum_bounding_envelope ar env self
                    else get_minimum_bounding_envelope ar env other)))"

subsection \<open>Reducers\<close>

text \<open>The body of the \<^verbatim>\<open>for\<close> loop of \<^verbatim>\<open>min_of\<close>, over the elements after the first;
  \<^verbatim>\<open>min_re.intersection\<close> is the method of RasterEnvelope, called with its default
  \<^verbatim>\<open>snap_this=True\<close>.\<close>

fun min_of_loop ::
  "arith \<Rightarrow> RasterEnvelope \<Rightarrow> RasterEnvelope \<Rightarrow> RasterEnvelope list \<Rightarrow> error + RasterEnvelope" where
  "min_of_loop ar snap_re min_re [] = Inr min_re"
| "min_of_loop ar snap_re min_re (re_i # rest) =
     (case RasterEnvelope_intersection ar min_re re_i True of
        Inl e \<Rightarrow> Inl e
      | Inr min_env \<Rightarrow>
          (case get_minimum_bounding_envelope ar min_env snap_re of
             Inl e \<Rightarrow> Inl e
           | Inr min_re' \<Rightarrow> min_of_loop ar snap_re min_re' rest))"

definition min_of ::
  "arith \<Rightarrow> RasterEnvelope list \<Rightarrow> RasterEnvelope option \<Rightarrow> error + RasterEnvelope" where
  "min_of ar re_list snap_re =
     (case re_list of
        [] \<Rightarrow> Inl IndexError
      | re_0 # rest \<Rightarrow>
          min_of_loop ar (case snap_re of None \<Rightarrow> re_0 | Some s \<Rightarrow> s) re_0 rest)"

fun max_of_loop ::
  "arith \<Rightarrow> RasterEnvelope \<Rightarrow> RasterEnvelope \<Rightarrow> RasterEnvelope list \<Rightarrow> error + RasterEnvelope" where
  "max_of_loop ar snap_re max_re [] = Inr max_re"
| "max_of_loop ar snap_re max_re (re_i # rest) =
     (case RasterEnvelope_union ar max_re re_i True of
        Inl e \<Rightarrow> Inl e
      | Inr max_env \<Rightarrow>
          (case get_minimum_bounding_envelope ar max_env snap_re of
             Inl e \<Rightarrow> Inl e
           | Inr max_re' \<Rightarrow> max_of_loop ar snap_re max_re' rest))"

definition max_of ::
  "arith \<Rightarrow> RasterEnvelope list \<Rightarrow> RasterEnvelope option \<Rightarrow> error + RasterEnvelope" where
  "max_of ar re_list snap_re =
     (case re_list of
        [] \<Rightarrow> Inl IndexError
      | re_0 # rest \<Rightarrow>
          max_of_loop ar (case snap_re of None \<Rightarrow> re_0 | Some s \<Rightarrow> s) re_0 rest)"

subsection \<open>RasterEnvelopes the module can produce\<close>

text \<open>The RasterEnvelopes that can be obtained from constructor calls with a positive
  cell size by the operations of the module: union, intersection,
  \<open>get_minimum_bounding_envelope\<close> (of a plain Envelope or of a RasterEnvelope) and
  the reducers.\<close>

inductive produced :: "arith \<Rightarrow> RasterEnvelope \<Rightarrow> bool" for ar :: arith where
  by_init: "0 < cs \<Longrightarrow> RasterEnvelope_init ar x0 y0 x1 y1 cs = Inr r \<Longrightarrow> produced ar r"
| by_union: "produced ar a \<Longrightarrow> produced ar b \<Longrightarrow>
     RasterEnvelope_union ar a b snap_this = Inr r \<Longrightarrow> produced ar r"
| by_intersection: "produced ar a \<Longrightarrow> produced ar b \<Longrightarrow>
     RasterEnvelope_intersection ar a b snap_this = Inr r \<Longrightarrow> produced ar r"
| by_bounding_envelope: "produced ar s \<Longrightarrow>
     get_minimum_bounding_envelope ar (e :: Envelope) s = Inr r \<Longrightarrow> produced ar r"
| by_bounding_raster: "produced ar s \<Longrightarrow>
     get_minimum_bounding_envelope ar (a :: RasterEnvelope) s = Inr r \<Longrightarrow> produced ar r"
| by_min_of: "\<forall>x \<in> set re_list. produced ar x \<Longrightarrow>
     \<forall>s. snap_re = Some s \<longrightarrow> produced ar s \<Longrightarrow>
     min_of ar re_list snap_re = Inr r \<Longrightarrow> produced ar r"
| by_max_of: "\<forall>x \<in> set re_list. produced ar x \<Longrightarrow>
     \<forall>s. snap_re = Some s \<longrightarrow> produced ar s \<Longrightarrow>
     max_of ar re_list snap_re = Inr r \<Longrightarrow> produced ar r"

subsection \<open>Arithmetics that keep positive numbers positive\<close>

text \<open>The property of the arithmetic that the cell counts depend on: rounding a
  positive number, and writing it as a decimal, gives a positive number, and the
  decimal context has at least one digit.\<close>

definition positive_arith :: "arith \<Rightarrow> bool" where
  "positive_arith ar \<longleftrightarrow>
     (\<forall>x. 0 < x \<longrightarrow> 0 < round_float ar x) \<and>
     (\<forall>x. 0 < x \<longrightarrow> 0 < str_float ar x) \<and>
     (\<forall>p. decimal_prec ar = Some p \<longrightarrow> 1 \<le> p)"

text \<open>A RasterEnvelope with at least one column and one row of cells of positive
  size.\<close>

definition covers_a_cell :: "RasterEnvelope \<Rightarrow> bool" where
  "covers_a_cell r \<longleftrightarrow> 0 < cell_size r \<and> 1 \<le> x_size r \<and> 1 \<le> y_size r"

subsection \<open>The reducers as the specification words them\<close>





section \<open>Properties\<close>

subsection \<open>Rounding to significant digits\<close>

lemma ndigits_pos: "0 < ndigits b n"
  by (subst ndigits.simps) simp

lemma digits_step:
  fixes b c n :: int
  assumes "0 < b" "c = b ^ j" "b ^ (d - 1) \<le> n div c" "n div c < b ^ d" "0 < d"
  shows "b ^ (j + d - 1) \<le> n \<and> n < b ^ (j + d)"
proof -
  have cp: "0 < c" using assms(1,2) by simp
  have split: "b ^ (j + d - 1) = c * b ^ (d - 1)"
    using assms(5) by (cases d) (simp_all add: assms(2) power_add)
  have "c * b ^ (d - 1) \<le> c * (n div c)"
    using assms(3) cp by (intro mult_left_mono) simp_all
  also have "\<dots> \<le> n"
  proof -
    have "c * (n div c) + n mod c = n" by simp
    moreover have "0 \<le> n mod c" using cp by simp
    ultimately show ?thesis by linarith
  qed
  finally have lower: "b ^ (j + d - 1) \<le> n" by (simp only: split)
  have "n = c * (n div c) + n mod c" by simp
  also have "\<dots> < c * (n div c) + c"
    using pos_mod_bound [OF cp, of n] by linarith
  also have "\<dots> = c * (n div c + 1)" by (simp add: algebra_simps)
  also have "\<dots> \<le> c * b ^ d" using assms(4) cp by (intro mult_left_mono) simp_all
  finally have upper: "n < b ^ (j + d)" by (simp add: assms(2) power_add)
  show ?thesis using lower upper by simp
qed

lemma ndigits_bounds:
  assumes "2 \<le> b" "0 < n"
  shows "b ^ (ndigits b n - 1) \<le> n \<and> n < b ^ ndigits b n"
  using assms
proof (induction b n rule: ndigits.induct)
  case (1 b n)
  have bp: "0 < b" using "1.prems"(1) by simp
  consider (small) "n < b" | (mid) "\<not> n < b" "n < b ^ 8" | (big) "\<not> n < b" "\<not> n < b ^ 8"
    by blast
  then show ?case
  proof cases
    case small
    with "1.prems" show ?thesis by (subst (1 2) ndigits.simps) simp
  next
    case mid
    have c: "\<not> (b < 2 \<or> n < b)" using mid(1) "1.prems"(1) by simp
    have pos: "0 < n div b" using mid(1) "1.prems"(1) by (simp add: pos_imp_zdiv_pos_iff)
    have IH: "b ^ (ndigits b (n div b) - 1) \<le> n div b \<and> n div b < b ^ ndigits b (n div b)"
      using "1.IH"(1) [OF c mid(2) "1.prems"(1) pos] .
    have nd: "ndigits b n = 1 + ndigits b (n div b)"
      using c mid(2) by (subst ndigits.simps) simp
    show ?thesis
      using digits_step [OF bp, of b 1 "ndigits b (n div b)" n] IH
        ndigits_pos [of b "n div b"]
      by (simp add: nd)
  next
    case big
    have c: "\<not> (b < 2 \<or> n < b)" using big(1) "1.prems"(1) by simp
    have "0 < b ^ 8" using bp by simp
    then have pos: "0 < n div b ^ 8" using big(2) by (simp add: pos_imp_zdiv_pos_iff)
    have IH: "b ^ (ndigits b (n div b ^ 8) - 1) \<le> n div b ^ 8
        \<and> n div b ^ 8 < b ^ ndigits b (n div b ^ 8)"
      using "1.IH"(2) [OF c big(2) "1.prems"(1) pos] .
    have nd: "ndigits b n = 8 + ndigits b (n div b ^ 8)"
      using c big(2) by (subst ndigits.simps) simp
    show ?thesis
      using digits_step [OF bp, of "b ^ 8" 8 "ndigits b (n div b ^ 8)" n] IH
        ndigits_pos [of b "n div b ^ 8"]
      by (simp add: nd)
  qed
qed

lemma ilog_le:
  assumes "2 \<le> b" "0 < x"
  shows "of_int b powi (ilog b x) \<le> x"
proof (cases "1 \<le> x")
  case True
  define n where "n = \<lfloor>x\<rfloor>"
  have n: "0 < n" using True by (simp add: n_def)
  have e: "ilog b x = int (ndigits b n - 1)"
    using True assms(2) ndigits_pos [of b n] by (simp add: ilog_def n_def)
  have "b ^ (ndigits b n - 1) \<le> n" using ndigits_bounds [OF assms(1) n] by simp
  then have "(of_int (b ^ (ndigits b n - 1)) :: rat) \<le> of_int n" by (simp only: of_int_le_iff)
  also have "\<dots> \<le> x" by (simp add: n_def)
  finally show ?thesis by (simp add: e)
next
  case False
  define m where "m = \<lceil>1 / x\<rceil> - 1"
  have "1 < 1 / x" using False assms(2) by simp
  then have m: "0 < m" unfolding m_def by linarith
  have e: "ilog b x = - int (ndigits b m)"
    using False assms(2) by (simp add: ilog_def m_def)
  have "m + 1 \<le> b ^ ndigits b m" using ndigits_bounds [OF assms(1) m] by simp
  then have "(of_int (m + 1) :: rat) \<le> of_int (b ^ ndigits b m)" by (simp only: of_int_le_iff)
  moreover have "1 / x \<le> of_int (m + 1)" by (simp add: m_def)
  ultimately have le: "1 / x \<le> of_int b ^ ndigits b m" by simp
  have bp: "(0::rat) < of_int b ^ ndigits b m" using assms(1) by simp
  have "1 / of_int b ^ ndigits b m \<le> x"
    using le assms(2) bp by (simp add: field_simps)
  then show ?thesis by (simp add: e power_int_minus_divide)
qed

lemma round_half_even_ge:
  assumes "of_int m \<le> y"
  shows "m \<le> round_half_even y"
proof -
  have "m \<le> \<lfloor>y\<rfloor>" using assms by (simp add: le_floor_iff)
  then show ?thesis by (simp add: round_half_even_def Let_def)
qed

lemma round_half_even_le:
  assumes "y \<le> of_int m"
  shows "round_half_even y \<le> m"
proof (cases "y = of_int m")
  case True
  then show ?thesis by (simp add: round_half_even_def)
next
  case False
  then have "y < of_int m" using assms by simp
  then have "\<lfloor>y\<rfloor> < m" by (simp add: floor_less_iff)
  then show ?thesis by (simp add: round_half_even_def Let_def)
qed

lemma round_half_even_of_int [simp]: "round_half_even (of_int k) = k"
  by (simp add: round_half_even_def)

text \<open>Rounding to at least one significant digit keeps the leading digit's power.\<close>

lemma round_sig_ge:
  assumes "2 \<le> b" "1 \<le> p" "0 < x"
  shows "of_int b powi (ilog b x) \<le> round_sig b p x"
proof -
  define u :: rat where "u = of_int b powi (ilog b x - (int p - 1))"
  have bp: "(0::rat) < of_int b" using assms(1) by simp
  have upos: "0 < u" using bp by (simp add: u_def)
  have r: "round_sig b p x = of_int (round_half_even (x / u)) * u"
    using assms(3) by (simp add: round_sig_def Let_def u_def)
  have pw: "of_int b powi (ilog b x) = of_int (b ^ (p - 1)) * u"
  proof -
    have "ilog b x = int (p - 1) + (ilog b x - (int p - 1))" using assms(2) by simp
    then have "(of_int b :: rat) powi (ilog b x) = of_int b powi int (p - 1) * u"
      unfolding u_def using bp by (metis less_irrefl power_int_add)
    then show ?thesis by (simp add: power_int_of_nat)
  qed
  have "of_int (b ^ (p - 1)) * u \<le> x" using ilog_le [OF assms(1,3)] by (simp only: pw)
  then have "of_int (b ^ (p - 1)) \<le> x / u" using upos by (simp add: pos_le_divide_eq)
  then have "b ^ (p - 1) \<le> round_half_even (x / u)" by (rule round_half_even_ge)
  then have "(of_int (b ^ (p - 1)) :: rat) \<le> of_int (round_half_even (x / u))"
    by (simp only: of_int_le_iff)
  then have "of_int (b ^ (p - 1)) * u \<le> of_int (round_half_even (x / u)) * u"
    by (rule mult_right_mono) (rule less_imp_le [OF upos])
  then show ?thesis by (simp only: pw r)
qed

lemma round_sig_pos:
  assumes "2 \<le> b" "1 \<le> p" "0 < x"
  shows "0 < round_sig b p x"
proof -
  have "(0::rat) < of_int b powi (ilog b x)" using assms(1) by simp
  then show ?thesis using round_sig_ge [OF assms] by simp
qed

lemma round_sig_nonneg: "0 \<le> x \<Longrightarrow> 0 \<le> b \<Longrightarrow> 0 \<le> round_sig b p x"
  by (simp add: round_sig_def Let_def round_half_even_ge sgn_if)

lemma binary64_pos: "0 < x \<Longrightarrow> 0 < binary64 x"
  unfolding binary64_def by (rule round_sig_pos) simp_all

lemma binary64_zero [simp]: "binary64 0 = 0"
  by (simp add: binary64_def round_sig_def)

lemma repr_at_pos:
  assumes "0 < x" "repr_at k x = Some d"
  shows "0 < d"
proof -
  define u :: rat where "u = 10 powi (ilog 10 x - (int k - 1))"
  define lo where "lo = of_int \<lfloor>x / u\<rfloor> * u"
  have upos: "0 < u" by (simp add: u_def)
  have lo0: "0 \<le> lo" using upos assms(1) by (simp add: lo_def)
  have "d = lo \<and> binary64 lo = x \<or> d = lo + u"
    using assms(2) unfolding repr_at_def Let_def u_def [symmetric] lo_def [symmetric]
    by (auto split: if_splits)
  then show ?thesis
  proof
    assume a: "d = lo \<and> binary64 lo = x"
    then have "lo \<noteq> 0" using assms(1) by auto
    then show ?thesis using lo0 a by simp
  next
    assume "d = lo + u"
    then show ?thesis using lo0 upos by simp
  qed
qed

lemma repr_from_pos: "0 < x \<Longrightarrow> 0 < repr_from k x"
proof (induction k x rule: repr_from.induct)
  case (1 k x)
  show ?case
  proof (cases "17 \<le> k")
    case True
    then show ?thesis
      using "1.prems" by (subst repr_from.simps) (simp add: round_sig_pos)
  next
    case False
    show ?thesis
    proof (cases "repr_at k x")
      case None
      then show ?thesis
        using False "1.IH" [OF False None "1.prems"] by (subst repr_from.simps) simp
    next
      case (Some d)
      then show ?thesis
        using False repr_at_pos [OF "1.prems" Some] by (subst repr_from.simps) simp
    qed
  qed
qed

lemma float_repr_pos: "0 < x \<Longrightarrow> 0 < float_repr x"
  by (simp add: float_repr_def repr_from_pos)

lemma py_int_nonneg: "0 \<le> x \<Longrightarrow> py_int x = \<lfloor>x\<rfloor>"
  by (simp add: py_int_def)

subsection \<open>Evaluating the operations on numerals\<close>

lemma floor_rat_numeral_div [simp]:
  "\<lfloor>numeral a / numeral b :: rat\<rfloor> = numeral a div numeral b"
  by (metis floor_divide_of_int_eq of_int_numeral)

lemma floor_rat_minus_numeral_div [simp]:
  "\<lfloor>- (numeral a / numeral b) :: rat\<rfloor> = - numeral a div numeral b"
  by (metis divide_minus_left floor_divide_of_int_eq of_int_neg_numeral of_int_numeral)

lemma ceiling_rat_numeral_div [simp]:
  "\<lceil>numeral a / numeral b :: rat\<rceil> = - (- numeral a div numeral b)"
  by (simp add: ceiling_def)

lemma ceiling_rat_minus_numeral_div [simp]:
  "\<lceil>- (numeral a / numeral b) :: rat\<rceil> = - (numeral a div numeral b)"
  by (simp add: ceiling_def)

lemma floor_rat_one_div [simp]:
  "\<lfloor>1 / numeral b :: rat\<rfloor> = 1 div numeral b"
  by (metis floor_divide_of_int_eq of_int_1 of_int_numeral)

lemma floor_rat_minus_one_div [simp]:
  "\<lfloor>- (1 / numeral b) :: rat\<rfloor> = - 1 div numeral b"
  by (metis divide_minus_left floor_divide_of_int_eq of_int_minus of_int_1 of_int_numeral)

lemma ceiling_rat_one_div [simp]:
  "\<lceil>1 / numeral b :: rat\<rceil> = - (- 1 div numeral b)"
  by (simp add: ceiling_def)

lemma ceiling_rat_minus_one_div [simp]:
  "\<lceil>- (1 / numeral b) :: rat\<rceil> = - (1 div numeral b)"
  by (simp add: ceiling_def)

text \<open>Numbers far below the largest double are finite.\<close>

lemma is_inf_python3 [simp]:
  assumes "\<bar>x\<bar> \<le> 10 ^ 40"
  shows "is_inf python3 x = False"
proof -
  have "(10::rat) ^ 40 \<le> binary64_max" by (simp add: binary64_max_def)
  then show ?thesis using assms by (simp add: is_inf_def python3_def)
qed

lemma python3_fields:
  "round_float python3 = binary64"
  "str_float python3 = float_repr"
  "decimal_prec python3 = Some 28"
  by (simp_all add: python3_def)

lemmas round_eval =
  binary64_def round_sig_def ilog_def ndigits.simps round_half_even_def Let_def

lemmas repr_eval = float_repr_def repr_from.simps repr_at_def

lemmas arith_eval =
  python3_fields round_eval fadd_def fsub_def fmul_def fdiv_def float_of_int_def
  float_floor_def PRECISION_def py_int_def fmod_def round_ctx_def decimal_divide_def
  decimal_remainder_def get_num_cells_def calculate_snapped_window_def
  RasterEnvelope_init_def Envelope_init_def assert_valid_envelope_def

lemmas float_eval = arith_eval repr_eval

lemmas op_eval =
  get_minimum_bounding_envelope_def get_offset_from_xy_def get_xy_from_offset_def
  is_disjoint_def is_subset_def is_superset_def is_snapped_def is_snapped_subset_def
  is_snapped_superset_def RasterEnvelope_union_def RasterEnvelope_intersection_def
  Envelope_union_def Envelope_intersection_def RasterEnvelope_eq_def

subsection \<open>The decimal strings of some doubles\<close>

text \<open>\<^verbatim>\<open>str\<close> of the doubles \<open>0.1\<close>, \<open>0.7\<close>, \<open>0.4\<close>, \<open>1.1\<close> and \<open>2.1\<close>,
  and of four doubles that need 16 or 17 digits: \<open>1 + 2^-25\<close> is
  \<open>1.0000000298023224\<close>, \<open>7.5 + 2^-22\<close> is \<open>7.500000238418579\<close>,
  \<open>7 - 7 * 0.7\<close> is \<open>2.1000000000000005\<close> and \<open>0.4 - 0.1\<close> is
  \<open>0.30000000000000004\<close>.\<close>

lemma float_repr_short:
  "float_repr 1 = 1"
  "float_repr 7 = 7"
  "float_repr 8 = 8"
  "float_repr (3602879701896397 / 36028797018963968) = 1 / 10"
  "float_repr (3152519739159347 / 4503599627370496) = 7 / 10"
  "float_repr (3602879701896397 / 9007199254740992) = 2 / 5"
  "float_repr (2476979795053773 / 2251799813685248) = 11 / 10"
  "float_repr (4728779608739021 / 2251799813685248) = 21 / 10"
  by (simp_all add: round_eval repr_eval)

lemma float_repr_cell_size: "float_repr (33554433 / 33554432) = 10000000298023224 / 10 ^ 16"
  by (simp add: round_eval repr_eval)

lemma float_repr_range: "float_repr (31457281 / 4194304) = 7500000238418579 / 10 ^ 15"
  by (simp add: round_eval repr_eval)

lemma float_repr_y_max:
  "float_repr (2364389804369511 / 1125899906842624) = 21000000000000005 / 10 ^ 16"
  by (simp add: round_eval repr_eval)

lemma float_repr_difference:
  "float_repr (1351079888211149 / 4503599627370496) = 30000000000000004 / 10 ^ 17"
  by (simp add: round_eval repr_eval)

lemmas repr_values =
  float_repr_short float_repr_cell_size float_repr_range float_repr_y_max
  float_repr_difference

subsection \<open>Reducers on a single element\<close>

text \<open>
  Claim C9. On a one-element sequence, with or without an explicit reference grid and
  in every arithmetic, \<open>min_of\<close> and \<open>max_of\<close> return that element as it is: the
  loop body (intersection or union, then the snap to the reference) is never run.
\<close>

theorem single_element_reducers_return_it:
  "min_of ar [re_0] snap_re = Inr re_0 \<and> max_of ar [re_0] snap_re = Inr re_0"
  by (simp add: min_of_def max_of_def)

subsection \<open>Equality of RasterEnvelopes\<close>

text \<open>
  Claim C1. \<open>__eq__\<close> tests \<open>x_min\<close> three times and never looks at \<open>x_max\<close>
  or \<open>y_max\<close>. In the Python arithmetic, \<^verbatim>\<open>RasterEnvelope(0, 0, 8, 8, 1)\<close> and
  \<^verbatim>\<open>RasterEnvelope(0, 0.5, 8, 8 + 2**-22, 1 + 2**-25)\<close> are built by the constructor
  with eight columns and eight rows each, differ by \<open>2^-22 > 1e-7\<close> in \<open>x_max\<close> and
  in \<open>y_max\<close>, and compare equal. All coordinates are dyadic: no float operation on
  them rounds.
\<close>

theorem RasterEnvelope_eq_ignores_x_max_y_max:
  "RasterEnvelope_init python3 0 0 8 8 1
     = Inr \<lparr>x_min = 0, y_min = 0, x_max = 8, y_max = 8,
             cell_size = 1, x_size = 8, y_size = 8\<rparr>
   \<and> RasterEnvelope_init python3 0 (1 / 2) 8 (8 + 1 / 2 ^ 22) (1 + 1 / 2 ^ 25)
     = Inr \<lparr>x_min = 0, y_min = 0, x_max = 8 + 1 / 2 ^ 22, y_max = 8 + 1 / 2 ^ 22,
             cell_size = 1 + 1 / 2 ^ 25, x_size = 8, y_size = 8\<rparr>
   \<and> RasterEnvelope_eq python3
         \<lparr>x_min = 0, y_min = 0, x_max = 8, y_max = 8,
          cell_size = 1, x_size = 8, y_size = 8\<rparr>
         \<lparr>x_min = 0, y_min = 0, x_max = 8 + 1 / 2 ^ 22, y_max = 8 + 1 / 2 ^ 22,
          cell_size = 1 + 1 / 2 ^ 25, x_size = 8, y_size = 8\<rparr>
   \<and> \<bar>fsub python3 8 (8 + 1 / 2 ^ 22)\<bar> > PRECISION python3"
proof -
  have a: "RasterEnvelope_init python3 0 0 8 8 1
     = Inr \<lparr>x_min = 0, y_min = 0, x_max = 8, y_max = 8,
             cell_size = 1, x_size = 8, y_size = 8\<rparr>"
    by (simp add: arith_eval repr_values)
  have b: "RasterEnvelope_init python3 0 (1 / 2) 8 (8 + 1 / 2 ^ 22) (1 + 1 / 2 ^ 25)
     = Inr \<lparr>x_min = 0, y_min = 0, x_max = 8 + 1 / 2 ^ 22, y_max = 8 + 1 / 2 ^ 22,
             cell_size = 1 + 1 / 2 ^ 25, x_size = 8, y_size = 8\<rparr>"
    by (simp add: arith_eval repr_values)
  have c: "RasterEnvelope_eq python3
         \<lparr>x_min = 0, y_min = 0, x_max = 8, y_max = 8,
          cell_size = 1, x_size = 8, y_size = 8\<rparr>
         \<lparr>x_min = 0, y_min = 0, x_max = 8 + 1 / 2 ^ 22, y_max = 8 + 1 / 2 ^ 22,
          cell_size = 1 + 1 / 2 ^ 25, x_size = 8, y_size = 8\<rparr>"
    by (simp add: arith_eval op_eval)
  have d: "\<bar>fsub python3 8 (8 + 1 / 2 ^ 22)\<bar> > PRECISION python3"
    by (simp add: arith_eval)
  show ?thesis using a b c d by (intro conjI)
qed

subsection \<open>Construction\<close>

text \<open>
  Claim C4. The constructor does not keep the window inside the recomputed one. In the
  Python arithmetic, \<^verbatim>\<open>RasterEnvelope(0.0, 0.0, 2.1, 2.1, 0.7)\<close> has three columns
  and three rows; the product \<open>3 * 0.7\<close> is the double \<open>2.0999999999999996\<close>, so
  that the stored \<open>x_max\<close> is below the given \<open>2.1\<close> and the stored \<open>y_min\<close>,
  \<open>2.1 - 2.0999999999999996\<close>, is above the given \<open>0\<close>: the window shrinks at
  the lower-right corner, and neither extent is the cell count times the cell size.
  On the valid input \<^verbatim>\<open>RasterEnvelope(0, 0, 1e30, 1, 1)\<close> the constructor raises
  \<^verbatim>\<open>decimal.InvalidOperation\<close>.
\<close>

theorem RasterEnvelope_init_shrinks_window:
  "RasterEnvelope_init python3 0 0 (binary64 (21 / 10)) (binary64 (21 / 10)) (binary64 (7 / 10))
     = Inr \<lparr>x_min = 0, y_min = binary64 (21 / 10) - binary64 (20999999999999996 / 10 ^ 16),
             x_max = binary64 (20999999999999996 / 10 ^ 16), y_max = binary64 (21 / 10),
             cell_size = binary64 (7 / 10), x_size = 3, y_size = 3\<rparr>
   \<and> binary64 (20999999999999996 / 10 ^ 16) < binary64 (21 / 10)
   \<and> 0 < binary64 (21 / 10) - binary64 (20999999999999996 / 10 ^ 16)
   \<and> binary64 (20999999999999996 / 10 ^ 16) - 0 \<noteq> 3 * binary64 (7 / 10)
   \<and> RasterEnvelope_init python3 0 0 (binary64 (10 ^ 30)) 1 1 = Inl InvalidOperation"
proof -
  have a: "RasterEnvelope_init python3 0 0 (binary64 (21 / 10)) (binary64 (21 / 10))
        (binary64 (7 / 10))
     = Inr \<lparr>x_min = 0, y_min = binary64 (21 / 10) - binary64 (20999999999999996 / 10 ^ 16),
             x_max = binary64 (20999999999999996 / 10 ^ 16), y_max = binary64 (21 / 10),
             cell_size = binary64 (7 / 10), x_size = 3, y_size = 3\<rparr>"
    by (simp add: arith_eval repr_values)
  have b: "binary64 (20999999999999996 / 10 ^ 16) < binary64 (21 / 10)"
    "0 < binary64 (21 / 10) - binary64 (20999999999999996 / 10 ^ 16)"
    "binary64 (20999999999999996 / 10 ^ 16) - 0 \<noteq> 3 * binary64 (7 / 10)"
    by (simp_all add: round_eval)
  have c: "RasterEnvelope_init python3 0 0 (binary64 (10 ^ 30)) 1 1 = Inl InvalidOperation"
    by (simp add: float_eval)
  show ?thesis using a b c by (intro conjI)
qed

subsection \<open>Counting cells\<close>

text \<open>
  Claim C5. \<open>get_num_cells\<close> subtracts in binary64 before it converts to
  \<^verbatim>\<open>Decimal\<close>. In the Python arithmetic the range \<open>0.4 - 0.1\<close> is the double
  \<open>0.30000000000000004\<close>, whose quotient by \<open>0.1\<close> has a remainder, and
  \<^verbatim>\<open>get_num_cells(0.4, 0.1, 0.1)\<close> is 4, although the decimals \<open>0.4 - 0.1\<close> and
  \<open>0.1\<close> are an exact multiple, of ceiling 3. On the positive range of
  \<^verbatim>\<open>get_num_cells(1e30, 0.0, 1.0)\<close> the remainder raises
  \<^verbatim>\<open>decimal.InvalidOperation\<close>: the integer quotient has 31 digits, the context 28.
\<close>

theorem get_num_cells_misclassifies_exact_multiple:
  "get_num_cells python3 (binary64 (4 / 10)) (binary64 (1 / 10)) (binary64 (1 / 10)) = Inr 4
   \<and> fsub python3 (binary64 (4 / 10)) (binary64 (1 / 10))
       = binary64 (30000000000000004 / 10 ^ 17)
   \<and> str_float python3 (binary64 (4 / 10)) = 4 / 10
   \<and> str_float python3 (binary64 (1 / 10)) = 1 / 10
   \<and> \<lceil>(4 / 10 - 1 / 10) / (1 / 10) :: rat\<rceil> = 3
   \<and> get_num_cells python3 (binary64 (10 ^ 30)) 0 1 = Inl InvalidOperation"
proof -
  have a: "get_num_cells python3 (binary64 (4 / 10)) (binary64 (1 / 10)) (binary64 (1 / 10))
       = Inr 4"
    by (simp add: arith_eval repr_values)
  have b: "fsub python3 (binary64 (4 / 10)) (binary64 (1 / 10))
       = binary64 (30000000000000004 / 10 ^ 17)"
    by (simp add: arith_eval)
  have c: "str_float python3 (binary64 (4 / 10)) = 4 / 10"
    "str_float python3 (binary64 (1 / 10)) = 1 / 10"
    by (simp_all add: arith_eval repr_values)
  have d: "\<lceil>(4 / 10 - 1 / 10) / (1 / 10) :: rat\<rceil> = 3" by simp
  have e: "get_num_cells python3 (binary64 (10 ^ 30)) 0 1 = Inl InvalidOperation"
    by (simp add: float_eval)
  show ?thesis using a b c d e by (intro conjI)
qed

subsection \<open>Offsets and coordinates\<close>

text \<open>
  Claim C7. The two conversions are not inverses of each other. In the Python
  arithmetic, on \<^verbatim>\<open>RasterEnvelope(0, 0, 1, 1, 0.1)\<close>, of ten columns and ten rows,
  the coordinate of the offset \<open>(0, 1)\<close> is \<open>(0.0, 0.9)\<close>; the quotient
  \<open>(1.0 - 0.9) / 0.1\<close> is the double \<open>0.9999999999999998\<close>, and the offset of that
  coordinate is \<open>(0, 0)\<close>.
\<close>

theorem offset_of_coordinate_of_offset_differs:
  "RasterEnvelope_init python3 0 0 1 1 (binary64 (1 / 10))
     = Inr \<lparr>x_min = 0, y_min = 0, x_max = 1, y_max = 1,
             cell_size = binary64 (1 / 10), x_size = 10, y_size = 10\<rparr>
   \<and> get_xy_from_offset python3
         \<lparr>x_min = 0, y_min = 0, x_max = 1, y_max = 1,
          cell_size = binary64 (1 / 10), x_size = 10, y_size = 10\<rparr> 0 1
     = (0, binary64 (9 / 10))
   \<and> fdiv python3 (fsub python3 1 (binary64 (9 / 10))) (binary64 (1 / 10))
     = Inr (binary64 (9999999999999998 / 10 ^ 16))
   \<and> get_offset_from_xy python3
         \<lparr>x_min = 0, y_min = 0, x_max = 1, y_max = 1,
          cell_size = binary64 (1 / 10), x_size = 10, y_size = 10\<rparr> 0 (binary64 (9 / 10))
     = Inr (0, 0)"
proof -
  let ?g = "\<lparr>x_min = 0, y_min = 0, x_max = 1, y_max = 1,
             cell_size = binary64 (1 / 10), x_size = 10, y_size = 10\<rparr>"
  have a: "RasterEnvelope_init python3 0 0 1 1 (binary64 (1 / 10)) = Inr ?g"
    by (simp add: arith_eval repr_values)
  have b: "get_xy_from_offset python3 ?g 0 1 = (0, binary64 (9 / 10))"
    by (simp add: arith_eval op_eval)
  have c: "fdiv python3 (fsub python3 1 (binary64 (9 / 10))) (binary64 (1 / 10))
     = Inr (binary64 (9999999999999998 / 10 ^ 16))"
    by (simp add: arith_eval)
  have d: "get_offset_from_xy python3 ?g 0 (binary64 (9 / 10)) = Inr (0, 0)"
    by (simp add: arith_eval op_eval)
  show ?thesis using a b c d by (intro conjI)
qed

subsection \<open>Snapped subsets\<close>

text \<open>
  Claim C6. \<open>is_snapped\<close> applies \<^verbatim>\<open>math.fmod\<close> to a rounded difference. In the
  Python arithmetic, \<open>self\<close>, \<^verbatim>\<open>RasterEnvelope(0.4, 0, 0.8, 1, 0.1)\<close>, lies inside
  \<open>other\<close>, \<^verbatim>\<open>RasterEnvelope(0.1, 0, 1.1, 1, 0.1)\<close>, with the same cell size, the same
  \<open>y_max\<close> and \<open>x_min\<close> exactly three cell sizes apart; the difference
  \<open>0.4 - 0.1\<close> rounds to \<open>0.30000000000000004\<close>, \<open>is_snapped\<close> answers no, and
  the union with \<open>snap_this\<close> is not \<open>other\<close> but an envelope of eleven columns
  from \<open>x_min = 0\<close>.
\<close>

theorem snapped_subset_not_recognised:
  "RasterEnvelope_init python3 (binary64 (4 / 10)) 0 (binary64 (8 / 10)) 1 (binary64 (1 / 10))
     = Inr \<lparr>x_min = binary64 (4 / 10), y_min = 0, x_max = binary64 (8 / 10), y_max = 1,
             cell_size = binary64 (1 / 10), x_size = 4, y_size = 10\<rparr>
   \<and> RasterEnvelope_init python3 (binary64 (1 / 10)) 0 (binary64 (11 / 10)) 1 (binary64 (1 / 10))
     = Inr \<lparr>x_min = binary64 (1 / 10), y_min = 0, x_max = binary64 (11 / 10), y_max = 1,
             cell_size = binary64 (1 / 10), x_size = 10, y_size = 10\<rparr>
   \<and> binary64 (4 / 10) - binary64 (1 / 10) = 3 * binary64 (1 / 10)
   \<and> is_subset
         \<lparr>x_min = binary64 (4 / 10), y_min = 0, x_max = binary64 (8 / 10), y_max = 1,
          cell_size = binary64 (1 / 10), x_size = 4, y_size = 10\<rparr>
         \<lparr>x_min = binary64 (1 / 10), y_min = 0, x_max = binary64 (11 / 10), y_max = 1,
          cell_size = binary64 (1 / 10), x_size = 10, y_size = 10\<rparr>
   \<and> is_snapped python3
         \<lparr>x_min = binary64 (4 / 10), y_min = 0, x_max = binary64 (8 / 10), y_max = 1,
          cell_size = binary64 (1 / 10), x_size = 4, y_size = 10\<rparr>
         \<lparr>x_min = binary64 (1 / 10), y_min = 0, x_max = binary64 (11 / 10), y_max = 1,
          cell_size = binary64 (1 / 10), x_size = 10, y_size = 10\<rparr> = Inr False
   \<and> RasterEnvelope_union python3
         \<lparr>x_min = binary64 (4 / 10), y_min = 0, x_max = binary64 (8 / 10), y_max = 1,
          cell_size = binary64 (1 / 10), x_size = 4, y_size = 10\<rparr>
         \<lparr>x_min = binary64 (1 / 10), y_min = 0, x_max = binary64 (11 / 10), y_max = 1,
          cell_size = binary64 (1 / 10), x_size = 10, y_size = 10\<rparr> True
     = Inr \<lparr>x_min = 0, y_min = 0, x_max = binary64 (11 / 10), y_max = 1,
             cell_size = binary64 (1 / 10), x_size = 11, y_size = 10\<rparr>"
proof -
  let ?s = "\<lparr>x_min = binary64 (4 / 10), y_min = 0, x_max = binary64 (8 / 10), y_max = 1,
          cell_size = binary64 (1 / 10), x_size = 4, y_size = 10\<rparr>"
  let ?o = "\<lparr>x_min = binary64 (1 / 10), y_min = 0, x_max = binary64 (11 / 10), y_max = 1,
          cell_size = binary64 (1 / 10), x_size = 10, y_size = 10\<rparr>"
  have a: "RasterEnvelope_init python3 (binary64 (4 / 10)) 0 (binary64 (8 / 10)) 1
        (binary64 (1 / 10)) = Inr ?s"
    by (simp add: arith_eval repr_values)
  have b: "RasterEnvelope_init python3 (binary64 (1 / 10)) 0 (binary64 (11 / 10)) 1
        (binary64 (1 / 10)) = Inr ?o"
    by (simp add: arith_eval repr_values)
  have c: "binary64 (4 / 10) - binary64 (1 / 10) = 3 * binary64 (1 / 10)"
    by (simp add: round_eval)
  have d: "is_subset ?s ?o" by (simp add: round_eval op_eval)
  have e: "is_snapped python3 ?s ?o = Inr False" by (simp add: arith_eval op_eval)
  have f: "RasterEnvelope_union python3 ?s ?o True
     = Inr \<lparr>x_min = 0, y_min = 0, x_max = binary64 (11 / 10), y_max = 1,
             cell_size = binary64 (1 / 10), x_size = 11, y_size = 10\<rparr>"
    by (simp add: arith_eval op_eval repr_values)
  show ?thesis using a b c d e f by (intro conjI)
qed

subsection \<open>The minimum bounding envelope\<close>

text \<open>
  Claim C3. The minimum bounding envelope need not contain the bound, nor be snapped
  to the reference. In the Python arithmetic, against the grid
  \<^verbatim>\<open>RasterEnvelope(0, 0, 7, 7, 0.7)\<close> of ten columns and ten rows, the bound
  \<^verbatim>\<open>Envelope(0, 0, 2.1, 2.1)\<close> is not disjoint from the grid, and the result has
  three columns and four rows, \<open>x_max = 2.0999999999999996\<close> below the bound's
  \<open>2.1\<close>, and \<open>y_max = 7 - 7 * 0.7 = 2.1000000000000005\<close>: the bound is not a
  subset of it, and \<open>is_snapped\<close> of the module answers that it is not snapped to the
  grid.
\<close>

theorem minimum_bounding_envelope_misses_bound:
  "RasterEnvelope_init python3 0 0 7 7 (binary64 (7 / 10))
     = Inr \<lparr>x_min = 0, y_min = 0, x_max = 7, y_max = 7,
             cell_size = binary64 (7 / 10), x_size = 10, y_size = 10\<rparr>
   \<and> assert_valid_envelope
        \<lparr>x_min = 0, y_min = 0, x_max = binary64 (21 / 10), y_max = binary64 (21 / 10)\<rparr>
   \<and> \<not> is_disjoint
        \<lparr>x_min = 0, y_min = 0, x_max = binary64 (21 / 10), y_max = binary64 (21 / 10)\<rparr>
        \<lparr>x_min = 0, y_min = 0, x_max = 7, y_max = 7,
         cell_size = binary64 (7 / 10), x_size = 10, y_size = 10\<rparr>
   \<and> get_minimum_bounding_envelope python3
        \<lparr>x_min = 0, y_min = 0, x_max = binary64 (21 / 10), y_max = binary64 (21 / 10)\<rparr>
        \<lparr>x_min = 0, y_min = 0, x_max = 7, y_max = 7,
         cell_size = binary64 (7 / 10), x_size = 10, y_size = 10\<rparr>
     = Inr \<lparr>x_min = 0, y_min = binary64 (- 6999999999999993 / 10 ^ 16),
             x_max = binary64 (20999999999999996 / 10 ^ 16),
             y_max = binary64 (21000000000000005 / 10 ^ 16),
             cell_size = binary64 (7 / 10), x_size = 3, y_size = 4\<rparr>
   \<and> \<not> is_subset
        \<lparr>x_min = 0, y_min = 0, x_max = binary64 (21 / 10), y_max = binary64 (21 / 10)\<rparr>
        \<lparr>x_min = 0, y_min = binary64 (- 6999999999999993 / 10 ^ 16),
         x_max = binary64 (20999999999999996 / 10 ^ 16),
         y_max = binary64 (21000000000000005 / 10 ^ 16),
         cell_size = binary64 (7 / 10), x_size = 3, y_size = 4\<rparr>
   \<and> is_snapped python3
        \<lparr>x_min = 0, y_min = binary64 (- 6999999999999993 / 10 ^ 16),
         x_max = binary64 (20999999999999996 / 10 ^ 16),
         y_max = binary64 (21000000000000005 / 10 ^ 16),
         cell_size = binary64 (7 / 10), x_size = 3, y_size = 4\<rparr>
        \<lparr>x_min = 0, y_min = 0, x_max = 7, y_max = 7,
         cell_size = binary64 (7 / 10), x_size = 10, y_size = 10\<rparr> = Inr False"
proof -
  let ?b = "\<lparr>x_min = 0, y_min = 0, x_max = binary64 (21 / 10),
             y_max = binary64 (21 / 10)\<rparr> :: Envelope"
  let ?g = "\<lparr>x_min = 0, y_min = 0, x_max = 7, y_max = 7,
         cell_size = binary64 (7 / 10), x_size = 10, y_size = 10\<rparr>"
  let ?r = "\<lparr>x_min = 0, y_min = binary64 (- 6999999999999993 / 10 ^ 16),
         x_max = binary64 (20999999999999996 / 10 ^ 16),
         y_max = binary64 (21000000000000005 / 10 ^ 16),
         cell_size = binary64 (7 / 10), x_size = 3, y_size = 4\<rparr>"
  have a: "RasterEnvelope_init python3 0 0 7 7 (binary64 (7 / 10)) = Inr ?g"
    by (simp add: arith_eval repr_values)
  have b: "assert_valid_envelope ?b" "\<not> is_disjoint ?b ?g"
    by (simp_all add: round_eval op_eval assert_valid_envelope_def)
  have c: "get_minimum_bounding_envelope python3 ?b ?g = Inr ?r"
    by (simp add: arith_eval op_eval repr_values)
  have d: "\<not> is_subset ?b ?r" by (simp add: round_eval op_eval)
  have e: "is_snapped python3 ?r ?g = Inr False" by (simp add: arith_eval op_eval)
  show ?thesis using a b c d e by (intro conjI)
qed

subsection \<open>The reducers step by step\<close>

lemma min_of_loop_append:
  "min_of_loop ar snap_re min_re (xs @ ys) =
     (case min_of_loop ar snap_re min_re xs of
        Inl e \<Rightarrow> Inl e
      | Inr r \<Rightarrow> min_of_loop ar snap_re r ys)"
  by (induction xs arbitrary: min_re) (simp_all split: sum.splits)







subsection \<open>Inputs that do not overlap\<close>

lemma is_snapped_no_error:
  assumes "0 < cell_size self" "finite_offsets ar self other"
  shows "\<exists>s. is_snapped ar self other = Inr s"
  using assms by (auto simp: is_snapped_def fmod_def finite_offsets_def Let_def)

lemma is_snapped_subset_no_error:
  assumes "0 < cell_size self" "finite_offsets ar self other"
  shows "\<exists>t. is_snapped_subset ar self other = Inr t"
  using is_snapped_no_error [OF assms]
  by (auto simp: is_snapped_subset_def)

lemma is_snapped_superset_no_error:
  assumes "0 < cell_size self" "finite_offsets ar self other"
  shows "\<exists>t. is_snapped_superset ar self other = Inr t"
  using is_snapped_no_error [OF assms]
  by (auto simp: is_snapped_superset_def)

lemma is_snapped_subset_True:
  "is_snapped_subset ar self other = Inr True \<longleftrightarrow>
     is_snapped ar self other = Inr True \<and> is_subset self other"
  by (auto simp: is_snapped_subset_def split: sum.splits if_splits)

lemma is_snapped_superset_True:
  "is_snapped_superset ar self other = Inr True \<longleftrightarrow>
     is_snapped ar self other = Inr True \<and> is_superset self other"
  by (auto simp: is_snapped_superset_def split: sum.splits if_splits)

lemma is_disjoint_intersection_invalid:
  assumes "is_disjoint a b"
  shows "Envelope_intersection a b = Inl (EnvelopeError ''Invalid envelope shape'')"
  using assms
  by (auto simp: is_disjoint_def Envelope_intersection_def Envelope_init_def
      assert_valid_envelope_def split: if_splits)

lemma Envelope_intersection_error:
  assumes "Envelope_intersection a b = Inl e"
  shows "e = EnvelopeError ''Invalid envelope shape''"
  using assms
  by (simp add: Envelope_intersection_def Envelope_init_def Let_def split: if_splits)

lemma min_of_append:
  assumes "min_of ar xs snap_re = Inr r"
  shows "min_of ar (xs @ ys) snap_re =
     min_of_loop ar (case snap_re of None \<Rightarrow> hd xs | Some s \<Rightarrow> s) r ys"
proof (cases xs)
  case Nil
  with assms show ?thesis by (simp add: min_of_def)
next
  case (Cons re_0 rest)
  with assms show ?thesis
    by (cases snap_re) (simp_all add: min_of_def min_of_loop_append)
qed

lemma RasterEnvelope_intersection_raises:
  assumes "assert_valid_envelope self" "assert_valid_envelope other" "0 < cell_size self"
    and "finite_offsets ar self other"
    and "Envelope_intersection self other = Inl e"
  shows "RasterEnvelope_intersection ar self other snap_this = Inl e"
proof -
  have inv: "\<not> (max (x_min self) (x_min other) < min (x_max self) (x_max other)
             \<and> max (y_min self) (y_min other) < min (y_max self) (y_max other))"
    using assms(5)
    by (auto simp: Envelope_intersection_def Envelope_init_def assert_valid_envelope_def
        split: if_splits)
  have ns: "\<not> is_subset self other" and np: "\<not> is_superset self other"
    using inv assms(1,2) by (auto simp: is_subset_def is_superset_def assert_valid_envelope_def)
  obtain t1 t2 where t: "is_snapped_subset ar self other = Inr t1"
      "is_snapped_superset ar self other = Inr t2"
    using is_snapped_subset_no_error [OF assms(3,4)]
      is_snapped_superset_no_error [OF assms(3,4)]
    by blast
  have "\<not> t1" "\<not> t2"
    using t ns np by (auto simp: is_snapped_subset_True is_snapped_superset_True)
  then show ?thesis
    using t ns np assms(5) by (simp add: RasterEnvelope_intersection_def)
qed

text \<open>
  Claim C8, as amended. The module has one exception class, \<open>EnvelopeError\<close>, and in
  every arithmetic, for RasterEnvelopes with a valid extent (\<open>x_min < x_max\<close>,
  \<open>y_min < y_max\<close>) and a positive cell size, whose differences in \<open>x_min\<close> and
  in \<open>y_max\<close> do not overflow:
  \<^item> when they are disjoint, or their plain intersection is not a valid envelope
    (touching edges included), the plain intersection and the intersection of
    RasterEnvelopes raise \<open>EnvelopeError\<close> with the message of the Envelope
    constructor, \<^verbatim>\<open>Invalid envelope shape\<close>, for either value of \<open>snap_this\<close>, and
    return no envelope;
  \<^item> \<open>get_minimum_bounding_envelope\<close> raises \<open>EnvelopeError\<close> with the message
    \<^verbatim>\<open>The two envelopes do not overlap\<close> for a bound disjoint from the reference;
  \<^item> \<open>min_of\<close> raises the constructor's \<open>EnvelopeError\<close> when, at some step of
    the fold, the running result \<open>min_re\<close> and the next element \<open>re_i\<close> are
    disjoint or have no valid plain intersection, whatever elements follow.
\<close>

theorem disjoint_inputs_raise:
  fixes self other :: RasterEnvelope and bound_env :: "'a Envelope_scheme"
  shows "(assert_valid_envelope self \<and> assert_valid_envelope other \<and> 0 < cell_size self
          \<and> finite_offsets ar self other
          \<and> (is_disjoint self other \<or> (\<exists>e. Envelope_intersection self other = Inl e))
          \<longrightarrow> Envelope_intersection self other = Inl (EnvelopeError ''Invalid envelope shape'')
            \<and> RasterEnvelope_intersection ar self other snap_this
                = Inl (EnvelopeError ''Invalid envelope shape''))
     \<and> (is_disjoint bound_env snap_re
          \<longrightarrow> get_minimum_bounding_envelope ar bound_env snap_re
                = Inl (EnvelopeError ''The two envelopes do not overlap''))
     \<and> (min_of ar re_list snap = Inr min_re
          \<and> assert_valid_envelope min_re \<and> assert_valid_envelope re_i \<and> 0 < cell_size min_re
          \<and> finite_offsets ar min_re re_i
          \<and> (is_disjoint min_re re_i \<or> (\<exists>e. Envelope_intersection min_re re_i = Inl e))
          \<longrightarrow> min_of ar (re_list @ re_i # rest) snap
                = Inl (EnvelopeError ''Invalid envelope shape''))"
proof (intro conjI impI)
  assume a: "assert_valid_envelope self \<and> assert_valid_envelope other \<and> 0 < cell_size self
          \<and> finite_offsets ar self other
          \<and> (is_disjoint self other \<or> (\<exists>e. Envelope_intersection self other = Inl e))"
  then show i: "Envelope_intersection self other = Inl (EnvelopeError ''Invalid envelope shape'')"
    using is_disjoint_intersection_invalid Envelope_intersection_error by blast
  show "RasterEnvelope_intersection ar self other snap_this
                = Inl (EnvelopeError ''Invalid envelope shape'')"
    using a i by (intro RasterEnvelope_intersection_raises) simp_all
next
  assume "is_disjoint bound_env snap_re"
  then show "get_minimum_bounding_envelope ar bound_env snap_re
                = Inl (EnvelopeError ''The two envelopes do not overlap'')"
    by (simp add: get_minimum_bounding_envelope_def)
next
  assume a: "min_of ar re_list snap = Inr min_re
          \<and> assert_valid_envelope min_re \<and> assert_valid_envelope re_i \<and> 0 < cell_size min_re
          \<and> finite_offsets ar min_re re_i
          \<and> (is_disjoint min_re re_i \<or> (\<exists>e. Envelope_intersection min_re re_i = Inl e))"
  then have "Envelope_intersection min_re re_i = Inl (EnvelopeError ''Invalid envelope shape'')"
    using is_disjoint_intersection_invalid Envelope_intersection_error by blast
  then have "RasterEnvelope_intersection ar min_re re_i True
       = Inl (EnvelopeError ''Invalid envelope shape'')"
    using a by (intro RasterEnvelope_intersection_raises) simp_all
  then show "min_of ar (re_list @ re_i # rest) snap = Inl (EnvelopeError ''Invalid envelope shape'')"
    using a by (simp add: min_of_append)
qed

theorem disjoint_inputs_raise_witness:
  "assert_valid_envelope \<lparr>x_min = 0, y_min = 0, x_max = 5, y_max = 5,
                        cell_size = 1, x_size = 5, y_size = 5\<rparr>
   \<and> assert_valid_envelope \<lparr>x_min = 21 / 4, y_min = 21 / 4, x_max = 37 / 4, y_max = 37 / 4,
                        cell_size = 1, x_size = 4, y_size = 4\<rparr>
   \<and> finite_offsets python3 \<lparr>x_min = 0, y_min = 0, x_max = 5, y_max = 5,
                        cell_size = 1, x_size = 5, y_size = 5\<rparr>
         \<lparr>x_min = 21 / 4, y_min = 21 / 4, x_max = 37 / 4, y_max = 37 / 4,
                        cell_size = 1, x_size = 4, y_size = 4\<rparr>
   \<and> is_disjoint \<lparr>x_min = 0, y_min = 0, x_max = 5, y_max = 5,
                        cell_size = 1, x_size = 5, y_size = 5\<rparr>
         \<lparr>x_min = 21 / 4, y_min = 21 / 4, x_max = 37 / 4, y_max = 37 / 4,
                        cell_size = 1, x_size = 4, y_size = 4\<rparr>
   \<and> RasterEnvelope_intersection python3 \<lparr>x_min = 0, y_min = 0, x_max = 5, y_max = 5,
                        cell_size = 1, x_size = 5, y_size = 5\<rparr>
         \<lparr>x_min = 21 / 4, y_min = 21 / 4, x_max = 37 / 4, y_max = 37 / 4,
                        cell_size = 1, x_size = 4, y_size = 4\<rparr> True
        = Inl (EnvelopeError ''Invalid envelope shape'')
   \<and> get_minimum_bounding_envelope python3 \<lparr>x_min = 0, y_min = 0, x_max = 5, y_max = 5,
                        cell_size = 1, x_size = 5, y_size = 5\<rparr>
         \<lparr>x_min = 21 / 4, y_min = 21 / 4, x_max = 37 / 4, y_max = 37 / 4,
                        cell_size = 1, x_size = 4, y_size = 4\<rparr>
        = Inl (EnvelopeError ''The two envelopes do not overlap'')
   \<and> min_of python3 [\<lparr>x_min = 0, y_min = 0, x_max = 5, y_max = 5,
                        cell_size = 1, x_size = 5, y_size = 5\<rparr>] None
        = Inr \<lparr>x_min = 0, y_min = 0, x_max = 5, y_max = 5,
                        cell_size = 1, x_size = 5, y_size = 5\<rparr>
   \<and> min_of python3 [\<lparr>x_min = 0, y_min = 0, x_max = 5, y_max = 5,
                        cell_size = 1, x_size = 5, y_size = 5\<rparr>,
              \<lparr>x_min = 21 / 4, y_min = 21 / 4, x_max = 37 / 4, y_max = 37 / 4,
                        cell_size = 1, x_size = 4, y_size = 4\<rparr>] None
        = Inl (EnvelopeError ''Invalid envelope shape'')"
proof -
  let ?a = "\<lparr>x_min = 0, y_min = 0, x_max = 5, y_max = 5,
             cell_size = 1, x_size = 5, y_size = 5\<rparr>"
  let ?b = "\<lparr>x_min = 21 / 4, y_min = 21 / 4, x_max = 37 / 4, y_max = 37 / 4,
             cell_size = 1, x_size = 4, y_size = 4\<rparr>"
  have a: "assert_valid_envelope ?a" and b: "assert_valid_envelope ?b"
    by (simp_all add: assert_valid_envelope_def)
  have f: "finite_offsets python3 ?a ?b"
    by (simp add: finite_offsets_def arith_eval)
  have d: "is_disjoint ?a ?b" by (simp add: is_disjoint_def)
  have m: "min_of python3 [?a] None = Inr ?a" by (simp add: min_of_def)
  show ?thesis
    using a b f d m
      disjoint_inputs_raise [where self = ?a and other = ?b and snap_this = True
        and bound_env = ?a and snap_re = ?b and re_list = "[?a]" and re_i = ?b
        and snap = None and min_re = ?a and rest = "[]" and ar = python3]
    by simp
qed

text \<open>
  Claim C8 as stated fails for \<open>min_of\<close>: of the three RasterEnvelopes below, built
  by the constructor, the second and the third are disjoint, and \<open>min_of\<close> returns
  the cell \<open>(3, 3, 4, 4)\<close>. The first step snaps the second envelope outwards to the
  grid of the first, \<open>(0, 0, 4, 4)\<close>, which the third one overlaps. And the error
  that the intersection of two disjoint RasterEnvelopes raises is the constructor's,
  for an invalid shape, not the one for envelopes that do not overlap.
\<close>

theorem min_of_disjoint_inputs_counterexample:
  "RasterEnvelope_init python3 0 0 10 10 1
     = Inr \<lparr>x_min = 0, y_min = 0, x_max = 10, y_max = 10,
             cell_size = 1, x_size = 10, y_size = 10\<rparr>
   \<and> RasterEnvelope_init python3 (1 / 2) (1 / 2) (7 / 2) (7 / 2) 1
     = Inr \<lparr>x_min = 1 / 2, y_min = 1 / 2, x_max = 7 / 2, y_max = 7 / 2,
             cell_size = 1, x_size = 3, y_size = 3\<rparr>
   \<and> RasterEnvelope_init python3 (29 / 8) (29 / 8) (61 / 8) (61 / 8) 1
     = Inr \<lparr>x_min = 29 / 8, y_min = 29 / 8, x_max = 61 / 8, y_max = 61 / 8,
             cell_size = 1, x_size = 4, y_size = 4\<rparr>
   \<and> is_disjoint
        \<lparr>x_min = 1 / 2, y_min = 1 / 2, x_max = 7 / 2, y_max = 7 / 2,
         cell_size = 1, x_size = 3, y_size = 3\<rparr>
        \<lparr>x_min = 29 / 8, y_min = 29 / 8, x_max = 61 / 8, y_max = 61 / 8,
         cell_size = 1, x_size = 4, y_size = 4\<rparr>
   \<and> min_of python3
        [\<lparr>x_min = 0, y_min = 0, x_max = 10, y_max = 10,
          cell_size = 1, x_size = 10, y_size = 10\<rparr>,
         \<lparr>x_min = 1 / 2, y_min = 1 / 2, x_max = 7 / 2, y_max = 7 / 2,
          cell_size = 1, x_size = 3, y_size = 3\<rparr>,
         \<lparr>x_min = 29 / 8, y_min = 29 / 8, x_max = 61 / 8, y_max = 61 / 8,
          cell_size = 1, x_size = 4, y_size = 4\<rparr>] None
     = Inr \<lparr>x_min = 3, y_min = 3, x_max = 4, y_max = 4,
             cell_size = 1, x_size = 1, y_size = 1\<rparr>
   \<and> RasterEnvelope_intersection python3
        \<lparr>x_min = 1 / 2, y_min = 1 / 2, x_max = 7 / 2, y_max = 7 / 2,
         cell_size = 1, x_size = 3, y_size = 3\<rparr>
        \<lparr>x_min = 29 / 8, y_min = 29 / 8, x_max = 61 / 8, y_max = 61 / 8,
         cell_size = 1, x_size = 4, y_size = 4\<rparr> True
     = Inl (EnvelopeError ''Invalid envelope shape'')
   \<and> EnvelopeError ''Invalid envelope shape''
       \<noteq> EnvelopeError ''The two envelopes do not overlap''"
proof -
  let ?a = "\<lparr>x_min = 0, y_min = 0, x_max = 10, y_max = 10,
          cell_size = 1, x_size = 10, y_size = 10\<rparr>"
  let ?b = "\<lparr>x_min = 1 / 2, y_min = 1 / 2, x_max = 7 / 2, y_max = 7 / 2,
          cell_size = 1, x_size = 3, y_size = 3\<rparr>"
  let ?c = "\<lparr>x_min = 29 / 8, y_min = 29 / 8, x_max = 61 / 8, y_max = 61 / 8,
          cell_size = 1, x_size = 4, y_size = 4\<rparr>"
  have 1: "RasterEnvelope_init python3 0 0 10 10 1 = Inr ?a"
    "RasterEnvelope_init python3 (1 / 2) (1 / 2) (7 / 2) (7 / 2) 1 = Inr ?b"
    "RasterEnvelope_init python3 (29 / 8) (29 / 8) (61 / 8) (61 / 8) 1 = Inr ?c"
    by (simp_all add: float_eval)
  have 2: "is_disjoint ?b ?c" by (simp add: is_disjoint_def)
  have 3: "min_of python3 [?a, ?b, ?c] None
     = Inr \<lparr>x_min = 3, y_min = 3, x_max = 4, y_max = 4,
             cell_size = 1, x_size = 1, y_size = 1\<rparr>"
    by (simp add: min_of_def float_eval op_eval)
  have 4: "RasterEnvelope_intersection python3 ?b ?c True
     = Inl (EnvelopeError ''Invalid envelope shape'')"
    by (simp add: float_eval op_eval)
  show ?thesis using 1 2 3 4 by (intro conjI) simp_all
qed

subsection \<open>Every operation returns at least one cell\<close>

lemma positive_arith_exact: "positive_arith exact"
  by (simp add: positive_arith_def exact_def)

lemma positive_arith_python3: "positive_arith python3"
  by (simp add: positive_arith_def python3_def binary64_pos float_repr_pos)

lemma ilog_nonneg: "1 \<le> x \<Longrightarrow> 0 \<le> ilog b x"
  using ndigits_pos [of b "\<lfloor>x\<rfloor>"] by (simp add: ilog_def)

lemma round_ctx_nonneg: "0 \<le> x \<Longrightarrow> 0 \<le> round_ctx ctx x"
  by (cases ctx) (simp_all add: round_ctx_def round_sig_nonneg)

lemma round_ctx_ge_one:
  assumes "1 \<le> x" "\<forall>p. ctx = Some p \<longrightarrow> 1 \<le> p"
  shows "1 \<le> round_ctx ctx x"
proof (cases ctx)
  case None
  then show ?thesis using assms(1) by (simp add: round_ctx_def)
next
  case (Some p)
  then have p: "1 \<le> p" using assms(2) by simp
  have x: "0 < x" using assms(1) by simp
  have "(1::rat) \<le> 10 powi ilog 10 x"
    using ilog_nonneg [OF assms(1), of 10] by (simp add: one_le_power_int)
  also have "\<dots> \<le> round_sig 10 p x" using round_sig_ge [of 10 p x] p x by simp
  finally show ?thesis by (simp add: round_ctx_def Some)
qed

lemma get_num_cells_ge_one:
  assumes "positive_arith ar" "b < a" "0 < cs" "get_num_cells ar a b cs = Inr n"
  shows "1 \<le> n"
proof -
  define r where "r = str_float ar (fsub ar a b)"
  define c where "c = str_float ar cs"
  have "0 < fsub ar a b" using assms(1,2) by (simp add: positive_arith_def fsub_def)
  then have r: "0 < r" using assms(1) by (simp add: positive_arith_def r_def)
  have c: "0 < c" using assms(1,3) by (simp add: positive_arith_def c_def)
  have prec: "\<forall>p. decimal_prec ar = Some p \<longrightarrow> 1 \<le> p"
    using assms(1) by (simp add: positive_arith_def)
  define q where "q = round_ctx (decimal_prec ar) (r / c)"
  define k where "k = py_int (r / c)"
  have k: "k = \<lfloor>r / c\<rfloor>" using r c by (simp add: k_def py_int_nonneg)
  have q0: "0 \<le> q" using r c by (simp add: q_def round_ctx_nonneg)
  have n: "n = (if r - c * of_int k \<noteq> 0 then py_int q + 1 else py_int q)"
    using assms(4) c
    unfolding get_num_cells_def Let_def r_def [symmetric] c_def [symmetric]
    by (auto simp add: decimal_divide_def decimal_remainder_def Let_def q_def k_def
        split: sum.splits if_splits)
  have pq: "0 \<le> py_int q" using q0 by (simp add: py_int_nonneg)
  show ?thesis
  proof (cases "r - c * of_int k = 0")
    case False
    then show ?thesis using n pq by simp
  next
    case True
    then have rk: "r / c = of_int k" using c by (simp add: field_simps)
    have "0 < r / c" using r c by simp
    then have "0 < k" unfolding rk by simp
    then have "1 \<le> r / c" unfolding rk by simp
    then have "1 \<le> q" unfolding q_def using prec by (rule round_ctx_ge_one)
    then have "1 \<le> py_int q" by (simp add: py_int_nonneg le_floor_iff)
    then show ?thesis using n True by simp
  qed
qed

lemma RasterEnvelope_init_covers_a_cell:
  assumes "positive_arith ar" "0 < cs" "RasterEnvelope_init ar x0 y0 x1 y1 cs = Inr r"
  shows "covers_a_cell r"
  using assms get_num_cells_ge_one [OF assms(1) _ assms(2)]
  unfolding RasterEnvelope_init_def Envelope_init_def calculate_snapped_window_def
    assert_valid_envelope_def covers_a_cell_def Let_def
  by (auto split: sum.splits if_splits)

lemma get_minimum_bounding_envelope_covers_a_cell:
  assumes "positive_arith ar" "0 < cell_size s" "get_minimum_bounding_envelope ar b s = Inr r"
  shows "covers_a_cell r"
  using assms(3) RasterEnvelope_init_covers_a_cell [OF assms(1,2)]
  unfolding get_minimum_bounding_envelope_def Let_def
  by (auto split: sum.splits if_splits prod.splits)

lemma RasterEnvelope_union_covers_a_cell:
  assumes "positive_arith ar" "covers_a_cell self" "covers_a_cell other"
    and "RasterEnvelope_union ar self other snap_this = Inr r"
  shows "covers_a_cell r"
proof -
  have cs: "0 < cell_size self" "0 < cell_size other"
    using assms(2,3) by (simp_all add: covers_a_cell_def)
  show ?thesis
    using assms(2-4) unfolding RasterEnvelope_union_def
    by (auto split: sum.splits if_splits
        intro: get_minimum_bounding_envelope_covers_a_cell [OF assms(1) cs(1)]
               get_minimum_bounding_envelope_covers_a_cell [OF assms(1) cs(2)])
qed

lemma RasterEnvelope_intersection_covers_a_cell:
  assumes "positive_arith ar" "covers_a_cell self" "covers_a_cell other"
    and "RasterEnvelope_intersection ar self other snap_this = Inr r"
  shows "covers_a_cell r"
proof -
  have cs: "0 < cell_size self" "0 < cell_size other"
    using assms(2,3) by (simp_all add: covers_a_cell_def)
  show ?thesis
    using assms(2-4) unfolding RasterEnvelope_intersection_def
    by (auto split: sum.splits if_splits
        intro: get_minimum_bounding_envelope_covers_a_cell [OF assms(1) cs(1)]
               get_minimum_bounding_envelope_covers_a_cell [OF assms(1) cs(2)])
qed

lemma min_of_loop_covers_a_cell:
  assumes "positive_arith ar" "0 < cell_size s"
  shows "covers_a_cell m \<Longrightarrow> min_of_loop ar s m rest = Inr r \<Longrightarrow> covers_a_cell r"
proof (induction rest arbitrary: m)
  case Nil
  then show ?case by simp
next
  case (Cons x rest)
  from Cons.prems(2) obtain e :: RasterEnvelope and m' where
      "RasterEnvelope_intersection ar m x True = Inr e"
      and m': "get_minimum_bounding_envelope ar e s = Inr m'"
      and r: "min_of_loop ar s m' rest = Inr r"
    by (auto split: sum.splits)
  have "covers_a_cell m'" using assms m' by (rule get_minimum_bounding_envelope_covers_a_cell)
  then show ?case using r by (rule Cons.IH)
qed

lemma max_of_loop_covers_a_cell:
  assumes "positive_arith ar" "0 < cell_size s"
  shows "covers_a_cell m \<Longrightarrow> max_of_loop ar s m rest = Inr r \<Longrightarrow> covers_a_cell r"
proof (induction rest arbitrary: m)
  case Nil
  then show ?case by simp
next
  case (Cons x rest)
  from Cons.prems(2) obtain e :: RasterEnvelope and m' where
      "RasterEnvelope_union ar m x True = Inr e"
      and m': "get_minimum_bounding_envelope ar e s = Inr m'"
      and r: "max_of_loop ar s m' rest = Inr r"
    by (auto split: sum.splits)
  have "covers_a_cell m'" using assms m' by (rule get_minimum_bounding_envelope_covers_a_cell)
  then show ?case using r by (rule Cons.IH)
qed

lemma produced_covers:
  assumes pa: "positive_arith ar"
  shows "produced ar r \<Longrightarrow> covers_a_cell r"
proof (induction rule: produced.induct)
  case (by_init cs x0 y0 x1 y1 r)
  then show ?case using RasterEnvelope_init_covers_a_cell [OF pa] by blast
next
  case (by_union a b snap_this r)
  then show ?case using RasterEnvelope_union_covers_a_cell [OF pa] by blast
next
  case (by_intersection a b snap_this r)
  then show ?case using RasterEnvelope_intersection_covers_a_cell [OF pa] by blast
next
  case (by_bounding_envelope s e r)
  then show ?case
    using get_minimum_bounding_envelope_covers_a_cell [OF pa, of s e r]
    by (simp add: covers_a_cell_def)
next
  case (by_bounding_raster s a r)
  then show ?case
    using get_minimum_bounding_envelope_covers_a_cell [OF pa, of s a r]
    by (simp add: covers_a_cell_def)
next
  case (by_min_of re_list snap_re r)
  then obtain x rest where l: "re_list = x # rest" by (cases re_list) (auto simp: min_of_def)
  let ?s = "case snap_re of None \<Rightarrow> x | Some s \<Rightarrow> s"
  have x: "covers_a_cell x" using by_min_of l by simp
  have "covers_a_cell ?s" using by_min_of x by (cases snap_re) simp_all
  then have s: "0 < cell_size ?s" by (simp add: covers_a_cell_def)
  have "min_of_loop ar ?s x rest = Inr r" using by_min_of l by (simp add: min_of_def)
  then show ?case using min_of_loop_covers_a_cell [OF pa s x] by blast
next
  case (by_max_of re_list snap_re r)
  then obtain x rest where l: "re_list = x # rest" by (cases re_list) (auto simp: max_of_def)
  let ?s = "case snap_re of None \<Rightarrow> x | Some s \<Rightarrow> s"
  have x: "covers_a_cell x" using by_max_of l by simp
  have "covers_a_cell ?s" using by_max_of x by (cases snap_re) simp_all
  then have s: "0 < cell_size ?s" by (simp add: covers_a_cell_def)
  have "max_of_loop ar ?s x rest = Inr r" using by_max_of l by (simp add: max_of_def)
  then show ?case using max_of_loop_covers_a_cell [OF pa s x] by blast
qed

text \<open>
  Claim C10, as amended. In every arithmetic that keeps positive numbers positive (the
  Python arithmetic and the exact one do), every RasterEnvelope obtained from
  constructor calls with a positive cell size through union, intersection,
  \<open>get_minimum_bounding_envelope\<close>, \<open>min_of\<close> and \<open>max_of\<close> has at least one
  column and one row of cells of positive size.
\<close>

theorem produced_covers_a_cell:
  assumes "positive_arith ar" "produced ar r"
  shows "1 \<le> x_size r \<and> 1 \<le> y_size r \<and> 0 < cell_size r"
  using produced_covers [OF assms] by (simp add: covers_a_cell_def)

theorem produced_covers_a_cell_witness:
  "positive_arith python3
   \<and> produced python3 \<lparr>x_min = 0, y_min = 0, x_max = 1, y_max = 1,
         cell_size = binary64 (1 / 10), x_size = 10, y_size = 10\<rparr>
   \<and> (1::int) \<le> x_size \<lparr>x_min = 0, y_min = 0, x_max = 1, y_max = 1,
         cell_size = binary64 (1 / 10), x_size = 10, y_size = 10\<rparr>
   \<and> (1::int) \<le> y_size \<lparr>x_min = 0, y_min = 0, x_max = 1, y_max = 1,
         cell_size = binary64 (1 / 10), x_size = 10, y_size = 10\<rparr>
   \<and> 0 < cell_size \<lparr>x_min = 0, y_min = 0, x_max = 1, y_max = 1,
         cell_size = binary64 (1 / 10), x_size = 10, y_size = 10\<rparr>"
proof -
  let ?g = "\<lparr>x_min = 0, y_min = 0, x_max = 1, y_max = 1,
         cell_size = binary64 (1 / 10), x_size = 10, y_size = 10\<rparr>"
  have cs: "0 < binary64 (1 / 10)" by (simp add: binary64_pos)
  have "RasterEnvelope_init python3 0 0 1 1 (binary64 (1 / 10)) = Inr ?g"
    by (simp add: arith_eval repr_values)
  with cs have g: "produced python3 ?g" by (rule produced.by_init)
  show ?thesis
    using g positive_arith_python3 produced_covers_a_cell [OF positive_arith_python3 g]
    by simp
qed

text \<open>
  Claim C10 as stated, for every RasterEnvelope that the constructor returns, fails:
  the constructor does not look at the sign of the cell size, and
  \<^verbatim>\<open>RasterEnvelope(0, 0, 9.5, 10, -1)\<close> is built with \<open>-8\<close> columns and \<open>-10\<close>
  rows.
\<close>

theorem negative_cell_size_counterexample:
  "RasterEnvelope_init python3 0 0 (19 / 2) 10 (- 1)
     = Inr \<lparr>x_min = 0, y_min = 0, x_max = 8, y_max = 10,
             cell_size = - 1, x_size = - 8, y_size = - 10\<rparr>"
  by (simp add: float_eval)


end
